theory Spec2Isabelle
  imports Main "HOL-Library.AList"
begin

section \<open>JavaScript values and objects\<close>

text \<open>
  The replication engine is the two modules that \<^verbatim>\<open>server.js\<close> imports as
  \<^verbatim>\<open>sync/mongoToFirestore.js\<close> (in the sources: \<^verbatim>\<open>src/config/firebase.js\<close> from its
  second \<^verbatim>\<open>import\<close> block on, \<^verbatim>\<open>cleanDocument\<close> to
  \<^verbatim>\<open>startMongoToFirestoreSync\<close>) and \<^verbatim>\<open>sync/firestoreToMongo.js\<close> (in the sources:
  \<^verbatim>\<open>unnamed/part_000\<close>, \<^verbatim>\<open>cleanFirestoreDoc\<close> to \<^verbatim>\<open>startFirestoreToMongoSync\<close>).

  Both inspect the run-time shape of the values they copy (\<^verbatim>\<open>typeof\<close>,
  \<^verbatim>\<open>Array.isArray\<close>, \<^verbatim>\<open>instanceof Date\<close>, \<^verbatim>\<open>constructor.name === 'ObjectId'\<close>).
  A value is therefore a tagged tree with one constructor per shape the code
  distinguishes.  A plain object is the list of its entries in the order
  \<^verbatim>\<open>Object.entries\<close> enumerates them; its keys are distinct.  Numbers are integers and a
  date is its epoch time; neither is ever inspected by the code.
\<close>

datatype jsval =
    JUndefined
  | JNull
  | JBool bool
  | JNumber int
  | JString string
  | JDate int
  | JObjectId string
  | JArray "jsval list"
  | JObject "(string \<times> jsval) list"

type_synonym obj = "(string \<times> jsval) list"

text \<open>Property read \<^verbatim>\<open>o.k\<close>: a missing property reads as \<^verbatim>\<open>undefined\<close>.\<close>

definition get_field :: "obj \<Rightarrow> string \<Rightarrow> jsval" where
  "get_field ob k = (case map_of ob k of None \<Rightarrow> JUndefined | Some v \<Rightarrow> v)"

text \<open>
  Object spread \<^verbatim>\<open>{ ...target, ...source }\<close>: the entries of the source are assigned one
  after the other; an assignment to a key that is already there replaces the value in
  place, a new key is appended.
\<close>

definition assign :: "obj \<Rightarrow> obj \<Rightarrow> obj" where
  "assign target source = fold (\<lambda>(k, v). AList.update k v) source target"

text \<open>The provenance marker \<^verbatim>\<open>{ ...o, _syncedFrom: tag }\<close> and its test.\<close>

definition syncedFrom :: "string \<Rightarrow> obj \<Rightarrow> obj" where
  "syncedFrom tag ob = AList.update ''_syncedFrom'' (JString tag) ob"

definition isSyncedFrom :: "string \<Rightarrow> obj \<Rightarrow> bool" where
  "isSyncedFrom tag ob \<longleftrightarrow> get_field ob ''_syncedFrom'' = JString tag"

section \<open>Primary-store documents\<close>

text \<open>
  No schema of the repository declares \<^verbatim>\<open>_id\<close>, so every document of a model carries an
  \<^verbatim>\<open>_id\<close> of type ObjectId.  A lean document is its \<^verbatim>\<open>_id\<close>, given by the 24 hex
  digits that \<^verbatim>\<open>_id.toString()\<close> prints, together with its other fields.
\<close>

record lean_doc =
  doc_id :: string
  doc_fields :: obj

subsection \<open>cleanDocument (mongoToFirestore.js)\<close>

fun cleanObject :: "jsval \<Rightarrow> jsval" where
  "cleanObject (JObjectId h) = JString h"
| "cleanObject (JArray xs) = JArray (map cleanObject xs)"
| "cleanObject (JDate t) = JDate t"
| "cleanObject (JObject kvs) = JObject (map (\<lambda>(k, v). (k, cleanObject v)) kvs)"
| "cleanObject v = v"

definition cleanDocument :: "lean_doc option \<Rightarrow> obj" where
  "cleanDocument doc =
     (case doc of
        None \<Rightarrow> []
      | Some d \<Rightarrow>
          (let rest = AList.delete ''__v'' (AList.delete ''_id'' (doc_fields d));
               cleaned = assign [(''id'', JString (doc_id d))] rest
           in map (\<lambda>(k, v). (k, cleanObject v)) cleaned))"

text \<open>Whether a reference-typed value occurs anywhere in a value.\<close>

fun has_ObjectId :: "jsval \<Rightarrow> bool" where
  "has_ObjectId (JObjectId h) = True"
| "has_ObjectId (JArray xs) = list_ex has_ObjectId xs"
| "has_ObjectId (JObject kvs) = list_ex (\<lambda>(k, v). has_ObjectId v) kvs"
| "has_ObjectId v = False"

section \<open>The two stores\<close>

text \<open>
  A collection of either store is a finite map from document key to document.  The
  secondary store (Firestore) keeps the object that was \<^verbatim>\<open>set\<close>; the primary store
  (MongoDB behind a Mongoose model) keeps the fields of a document under its \<^verbatim>\<open>_id\<close>.
  Network failures of single reads and writes are outside the model; the errors kept
  are the ones the store client raises on the values it is given.  The console is not
  modelled.
\<close>

type_synonym firestore = "string \<rightharpoonup> obj"
type_synonym mongo = "string \<rightharpoonup> obj"

datatype error =
  TypeError | CastError | ValidationError | DuplicateKey | ImmutableField | ConnectionError

subsection \<open>Secondary store: \<^verbatim>\<open>ref.set\<close> and \<^verbatim>\<open>ref.delete\<close>\<close>

datatype fs_write = DocSet string obj | DocDelete string

fun fs_apply :: "fs_write \<Rightarrow> firestore \<Rightarrow> firestore" where
  "fs_apply (DocSet k d) fs = fs(k \<mapsto> d)"
| "fs_apply (DocDelete k) fs = fs(k := None)"

subsection \<open>Primary store: the Mongoose model\<close>

text \<open>The key grammar, \<^verbatim>\<open>/^[0-9a-fA-F]{24}$/.test(id)\<close>.\<close>

definition isHexDigit :: "char \<Rightarrow> bool" where
  "isHexDigit c \<longleftrightarrow> c \<in> set ''0123456789abcdefABCDEF''"

definition isValidObjectId :: "string \<Rightarrow> bool" where
  "isValidObjectId s \<longleftrightarrow> length s = 24 \<and> list_all isHexDigit s"

text \<open>
  \<^verbatim>\<open>model.findById(k)\<close>.  Mongoose casts the argument of a query by \<^verbatim>\<open>_id\<close> to
  the type of that path, which is ObjectId for every model here.  A string of 24 hex
  digits casts.  A string of another shape does not: the query then rejects with a
  CastError, it does not answer \<^verbatim>\<open>null\<close>.  (A string of exactly 12 characters, which
  some driver versions read as 12 raw bytes, is not treated apart.  Keys are kept as the
  strings the code passes.)
\<close>

definition findById :: "mongo \<Rightarrow> string \<Rightarrow> error + lean_doc option" where
  "findById m k =
     (if isValidObjectId k
      then Inr (map_option (\<lambda>f. \<lparr>doc_id = k, doc_fields = f\<rparr>) (m k))
      else Inl CastError)"

datatype mongo_write =
    Create obj
  | FindByIdAndUpdate string obj
  | FindByIdAndDelete string

text \<open>
  The \<^verbatim>\<open>model\<close> that \<^verbatim>\<open>syncFirestoreToMongo(collectionName, model)\<close> is given.  What
  a model stores for an object goes through its schema (\<^verbatim>\<open>models/Student.js\<close>,
  \<^verbatim>\<open>models/StudentTestAttempt.js\<close>): undeclared paths such as \<^verbatim>\<open>_syncedFrom\<close> are
  dropped, values are cast, \<^verbatim>\<open>create\<close> validates the required paths and adds defaults and
  the version key, and a schema with \<^verbatim>\<open>timestamps\<close> stamps the document.  None of this
  is in the sync modules, so it is a parameter of theirs:
  \<^item> \<open>mint\<close> is the key the store generates for a document created without \<^verbatim>\<open>_id\<close>;
  \<^item> \<open>validated ob\<close> is the document \<^verbatim>\<open>create\<close> stores for the object \<open>ob\<close>, or the
    error it raises;
  \<^item> \<open>updated old upd\<close> is the document \<^verbatim>\<open>findByIdAndUpdate\<close> stores in place of
    \<open>old\<close> for the update \<open>upd\<close>, or the error it raises.
  The properties below hold for every model.
\<close>

record model =
  mint :: "mongo \<Rightarrow> string"
  validated :: "obj \<Rightarrow> error + obj"
  updated :: "obj \<Rightarrow> obj \<Rightarrow> error + obj"

definition insertOne :: "model \<Rightarrow> string \<Rightarrow> obj \<Rightarrow> mongo \<Rightarrow> error + mongo" where
  "insertOne M k ob m =
     (case validated M (AList.delete ''_id'' ob) of
        Inl e \<Rightarrow> Inl e
      | Inr d \<Rightarrow> if m k = None then Inr (m(k \<mapsto> d)) else Inl DuplicateKey)"

text \<open>
  \<^verbatim>\<open>model.create(ob)\<close> stores the document under the \<^verbatim>\<open>_id\<close> that \<^verbatim>\<open>ob\<close>
  supplies, and under a key newly generated by the store when it supplies none.
\<close>

definition create :: "model \<Rightarrow> obj \<Rightarrow> mongo \<Rightarrow> error + mongo" where
  "create M ob m =
     (case map_of ob ''_id'' of
        None \<Rightarrow> insertOne M (mint M m) ob m
      | Some (JString k) \<Rightarrow> if isValidObjectId k then insertOne M k ob m else Inl CastError
      | Some (JObjectId k) \<Rightarrow> insertOne M k ob m
      | Some _ \<Rightarrow> Inl CastError)"

text \<open>
  \<^verbatim>\<open>model.findByIdAndUpdate(k, upd)\<close> replaces the document at \<^verbatim>\<open>k\<close> by what the
  model makes of it and the update; without such a document nothing is written.  The
  \<^verbatim>\<open>_id\<close> of a stored document cannot be changed.
\<close>

definition findByIdAndUpdate :: "model \<Rightarrow> string \<Rightarrow> obj \<Rightarrow> mongo \<Rightarrow> error + mongo" where
  "findByIdAndUpdate M k upd m =
     (if \<not> isValidObjectId k then Inl CastError
      else case m k of
        None \<Rightarrow> Inr m
      | Some r \<Rightarrow>
          (case map_of upd ''_id'' of
             None \<Rightarrow> map_sum id (\<lambda>d. m(k \<mapsto> d)) (updated M r upd)
           | Some v \<Rightarrow>
               if v = JString k \<or> v = JObjectId k
               then map_sum id (\<lambda>d. m(k \<mapsto> d)) (updated M r (AList.delete ''_id'' upd))
               else Inl ImmutableField))"

text \<open>\<^verbatim>\<open>model.findByIdAndDelete(k)\<close> removes the document at \<^verbatim>\<open>k\<close>, if there is one.\<close>

definition findByIdAndDelete :: "string \<Rightarrow> mongo \<Rightarrow> error + mongo" where
  "findByIdAndDelete k m = (if isValidObjectId k then Inr (m(k := None)) else Inl CastError)"

fun mongo_apply :: "model \<Rightarrow> mongo_write \<Rightarrow> mongo \<Rightarrow> error + mongo" where
  "mongo_apply M (Create ob) m = create M ob m"
| "mongo_apply M (FindByIdAndUpdate k upd) m = findByIdAndUpdate M k upd m"
| "mongo_apply M (FindByIdAndDelete k) m = findByIdAndDelete k m"

text \<open>
  \<^verbatim>\<open>try { await write } catch (err) { console.error(...) }\<close>: a write that fails is
  logged and leaves the store as it was.
\<close>

definition try_write :: "model \<Rightarrow> mongo_write \<Rightarrow> mongo \<Rightarrow> mongo" where
  "try_write M w m = (case mongo_apply M w m of Inl e \<Rightarrow> m | Inr m' \<Rightarrow> m')"

section \<open>Primary to secondary: mongoToFirestore.js\<close>

subsection \<open>The initial sync of \<^verbatim>\<open>syncModelToFirestore\<close>\<close>

text \<open>
  One round of the loop over \<^verbatim>\<open>allDocs\<close>: the writes it issues on the secondary store,
  given the store as it is when the round starts (\<^verbatim>\<open>docSnap.exists\<close> is read first).
\<close>

definition initialSync_writes :: "firestore \<Rightarrow> lean_doc \<Rightarrow> fs_write list" where
  "initialSync_writes fs d =
     (if fs (doc_id d) = None
      then [DocSet (doc_id d) (syncedFrom ''mongo'' (cleanDocument (Some d)))]
      else [])"



subsection \<open>The change-stream listener of \<^verbatim>\<open>syncModelToFirestore\<close>\<close>

datatype operationType = Insert | Update | Replace | Delete | OtherOperation

text \<open>
  A change event: \<^verbatim>\<open>documentKey\<close> is absent on events that concern no single document
  (then \<^verbatim>\<open>documentKey._id\<close> throws), \<^verbatim>\<open>fullDocument\<close> is absent unless the stream
  delivers it.
\<close>

record change_event =
  operationType :: operationType
  documentKey :: "string option"
  fullDocument :: "lean_doc option"

text \<open>\<^verbatim>\<open>doc?._syncedFrom === tag\<close> on a document that may be missing.\<close>

definition docSyncedFrom :: "string \<Rightarrow> lean_doc option \<Rightarrow> bool" where
  "docSyncedFrom tag doc =
     (case doc of None \<Rightarrow> False | Some d \<Rightarrow> isSyncedFrom tag (doc_fields d))"

definition refetch_writes :: "mongo \<Rightarrow> string \<Rightarrow> error + fs_write list" where
  "refetch_writes m k =
     (case findById m k of
        Inl e \<Rightarrow> Inl e
      | Inr updatedDoc \<Rightarrow>
          if docSyncedFrom ''firestore'' updatedDoc then Inr []
          else Inr [DocSet k (syncedFrom ''mongo'' (cleanDocument updatedDoc))])"

definition onChange_writes :: "mongo \<Rightarrow> change_event \<Rightarrow> error + fs_write list" where
  "onChange_writes m change =
     (case documentKey change of
        None \<Rightarrow> Inl TypeError
      | Some k \<Rightarrow>
          if docSyncedFrom ''firestore'' (fullDocument change) then Inr []
          else (case operationType change of
                  Insert \<Rightarrow>
                    Inr [DocSet k (syncedFrom ''mongo'' (cleanDocument (fullDocument change)))]
                | Update \<Rightarrow> refetch_writes m k
                | Replace \<Rightarrow> refetch_writes m k
                | Delete \<Rightarrow> Inr [DocDelete k]
                | OtherOperation \<Rightarrow> Inr []))"

text \<open>The handler with its \<^verbatim>\<open>try/catch\<close>: an error is logged and nothing is written.\<close>

definition onChange :: "mongo \<Rightarrow> change_event \<Rightarrow> firestore \<Rightarrow> firestore" where
  "onChange m change fs =
     (case onChange_writes m change of Inl e \<Rightarrow> fs | Inr ws \<Rightarrow> fold fs_apply ws fs)"

section \<open>Secondary to primary: firestoreToMongo.js\<close>

subsection \<open>cleanFirestoreDoc\<close>

definition isString :: "jsval \<Rightarrow> bool" where
  "isString v = (case v of JString s \<Rightarrow> True | _ \<Rightarrow> False)"

text \<open>
  Every value of type \<^verbatim>\<open>object\<close> that is no array is rebuilt from its entries.  A
  \<^verbatim>\<open>Date\<close> has no enumerable property of its own, so it comes out as the empty object.
  The secondary store cannot hold an ObjectId; the model leaves one as it is.
\<close>

fun cleanObject_firestore :: "jsval \<Rightarrow> jsval" where
  "cleanObject_firestore (JArray xs) = JArray (map cleanObject_firestore xs)"
| "cleanObject_firestore (JDate t) = JObject []"
| "cleanObject_firestore (JObject kvs) =
     JObject (map (\<lambda>(key, val).
        if key = ''_id'' \<and> isString val then (key, val)
        else if key = ''createdBy'' \<and> isString val then (key, val)
        else (key, cleanObject_firestore val)) kvs)"
| "cleanObject_firestore v = v"

definition cleanFirestoreDoc :: "obj \<Rightarrow> obj" where
  "cleanFirestoreDoc rawData =
     (case cleanObject_firestore (JObject (AList.delete ''id'' rawData)) of
        JObject kvs \<Rightarrow> kvs
      | _ \<Rightarrow> [])"

subsection \<open>The initial snapshot of \<^verbatim>\<open>syncFirestoreToMongo\<close>\<close>

record doc_snapshot =
  snap_id :: string
  snap_data :: obj

definition initialSnapshot_writes :: "mongo \<Rightarrow> doc_snapshot \<Rightarrow> error + mongo_write list" where
  "initialSnapshot_writes m doc =
     (let docId = snap_id doc; rawData = snap_data doc in
      if isSyncedFrom ''mongo'' rawData then Inr []
      else
        let data = cleanFirestoreDoc rawData in
        case findById m docId of
          Inl e \<Rightarrow> Inl e
        | Inr existing \<Rightarrow>
            if existing = None then
              (if isValidObjectId docId
               then Inr [Create (syncedFrom ''firestore'' (assign [(''_id'', JString docId)] data))]
               else Inr [Create (syncedFrom ''firestore'' data)])
            else Inr [FindByIdAndUpdate docId (syncedFrom ''firestore'' data)])"

definition initialSnapshot_doc :: "model \<Rightarrow> doc_snapshot \<Rightarrow> mongo \<Rightarrow> mongo" where
  "initialSnapshot_doc M doc m =
     (case initialSnapshot_writes m doc of Inl e \<Rightarrow> m | Inr ws \<Rightarrow> fold (try_write M) ws m)"

definition initialSnapshot :: "model \<Rightarrow> doc_snapshot list \<Rightarrow> mongo \<Rightarrow> mongo" where
  "initialSnapshot M docs m = fold (initialSnapshot_doc M) docs m"

subsection \<open>The snapshot listener of \<^verbatim>\<open>syncFirestoreToMongo\<close>\<close>

datatype change_type = Added | Modified | Removed

record doc_change =
  change_type :: change_type
  change_doc :: doc_snapshot

definition onSnapshot_writes :: "mongo \<Rightarrow> doc_change \<Rightarrow> error + mongo_write list" where
  "onSnapshot_writes m change =
     (let rawData = snap_data (change_doc change); k = snap_id (change_doc change) in
      if isSyncedFrom ''mongo'' rawData then Inr []
      else
        let data = cleanFirestoreDoc rawData in
        case change_type change of
          Added \<Rightarrow>
            (case findById m k of
               Inl e \<Rightarrow> Inl e
             | Inr existing \<Rightarrow>
                 if existing = None then
                   (if isValidObjectId k
                    then Inr [Create (syncedFrom ''firestore'' (assign [(''_id'', JString k)] data))]
                    else Inr [Create (syncedFrom ''firestore'' data)])
                 else Inr [])
        | Modified \<Rightarrow>
            if isValidObjectId k then
              (case findById m k of
                 Inl e \<Rightarrow> Inl e
               | Inr existing \<Rightarrow>
                   if existing \<noteq> None
                   then Inr [FindByIdAndUpdate k (syncedFrom ''firestore'' data)]
                   else Inr [])
            else Inr []
        | Removed \<Rightarrow>
            if isValidObjectId k then Inr [FindByIdAndDelete k] else Inr [])"

definition onSnapshot :: "model \<Rightarrow> doc_change \<Rightarrow> mongo \<Rightarrow> mongo" where
  "onSnapshot M change m =
     (case onSnapshot_writes m change of Inl e \<Rightarrow> m | Inr ws \<Rightarrow> fold (try_write M) ws m)"

section \<open>Startup\<close>







section \<open>Notions used to state the properties\<close>

text \<open>
  The writes a handler issues: none when it threw before writing (the error is logged by
  its \<^verbatim>\<open>catch\<close>).
\<close>

definition issued :: "error + 'w list \<Rightarrow> 'w list" where
  "issued r = (case r of Inl e \<Rightarrow> [] | Inr ws \<Rightarrow> ws)"

text \<open>
  A model for the examples, which need one as an argument though none of them reaches
  \<^verbatim>\<open>create\<close> or \<^verbatim>\<open>findByIdAndUpdate\<close>: it mints a fixed key and its schema refuses
  every object.
\<close>

definition example_model :: model where
  "example_model =
     \<lparr>mint = (\<lambda>m. ''65f1a2b3c4d5e6f7a8b9c0d2''),
      validated = (\<lambda>ob. Inl ValidationError),
      updated = (\<lambda>old upd. Inl ValidationError)\<rparr>"

subsection \<open>The handlers of one feed in time\<close>







section \<open>Objects: assignment and lookup\<close>

lemma assign_keys: "fst ` set (assign t s) = fst ` set t \<union> fst ` set s"
  unfolding assign_def
proof (induction s arbitrary: t)
  case Nil
  then show ?case by simp
next
  case (Cons a s)
  have "fst ` set (AList.update (fst a) (snd a) t) = {fst a} \<union> fst ` set t"
    by (rule dom_update)
  with Cons show ?case by (simp add: case_prod_beta)
qed

lemma map_of_assign_other: "k \<notin> fst ` set s \<Longrightarrow> map_of (assign t s) k = map_of t k"
  unfolding assign_def
  by (induction s arbitrary: t) (auto simp: update_conv')

lemma map_of_assign_distinct:
  "distinct (map fst s) \<Longrightarrow> (k, v) \<in> set s \<Longrightarrow> map_of (assign t s) k = Some v"
  unfolding assign_def
proof (induction s arbitrary: t)
  case Nil
  then show ?case by simp
next
  case (Cons a s)
  obtain k' v' where a: "a = (k', v')" by (cases a)
  show ?case
  proof (cases "(k, v) \<in> set s")
    case True
    with Cons show ?thesis by (simp add: a)
  next
    case False
    with Cons.prems have kv: "k' = k" "v' = v" and notin: "k \<notin> fst ` set s"
      by (auto simp: a)
    have "map_of (fold (\<lambda>(k, v). AList.update k v) s (AList.update k v t)) k
          = map_of (AList.update k v t) k"
      using map_of_assign_other [OF notin, of "AList.update k v t"] by (simp add: assign_def)
    then show ?thesis by (simp add: a kv update_conv')
  qed
qed

lemma example_key_valid: "isValidObjectId ''65f1a2b3c4d5e6f7a8b9c0d1''"
  by (simp add: isValidObjectId_def isHexDigit_def)

lemma example_key_invalid: "\<not> isValidObjectId ''teacher-fall-2024''"
  by (simp add: isValidObjectId_def)

section \<open>Backfill\<close>

subsection \<open>Primary to secondary: the initial sync creates and never overwrites\<close>







subsection \<open>Secondary to primary: the initial snapshot creates or updates\<close>






section \<open>Live replication\<close>

text \<open>
  Claim C2, as the code has it.  Both listeners test the provenance tag before they look at
  the kind of the event.  Primary to secondary, a \<^verbatim>\<open>delete\<close> event whose
  \<^verbatim>\<open>fullDocument\<close> is not tagged \<^verbatim>\<open>firestore\<close> (the change stream delivers none on a
  delete) deletes the secondary document at the key.  Secondary to primary, a
  \<^verbatim>\<open>removed\<close> event deletes the primary record at the key exactly when the removed
  document was not tagged \<^verbatim>\<open>mongo\<close> and its key matches the key grammar; otherwise no
  write is issued.
\<close>

theorem deletion_propagation_guarded:
  "(operationType change = Delete \<and> documentKey change = Some k \<and>
    \<not> docSyncedFrom ''firestore'' (fullDocument change) \<longrightarrow>
      onChange_writes m change = Inr [DocDelete k] \<and> onChange m change fs = fs(k := None)) \<and>
   (change_type c = Removed \<longrightarrow>
      issued (onSnapshot_writes mo c) =
        (if \<not> isSyncedFrom ''mongo'' (snap_data (change_doc c)) \<and>
            isValidObjectId (snap_id (change_doc c))
         then [FindByIdAndDelete (snap_id (change_doc c))] else []) \<and>
      onSnapshot M c mo =
        (if \<not> isSyncedFrom ''mongo'' (snap_data (change_doc c)) \<and>
            isValidObjectId (snap_id (change_doc c))
         then mo(snap_id (change_doc c) := None) else mo))"
  by (auto simp: onChange_writes_def onChange_def onSnapshot_writes_def onSnapshot_def issued_def
      Let_def try_write_def findByIdAndDelete_def)

text \<open>
  The theorem for C2 at a \<^verbatim>\<open>delete\<close> event of the primary feed and at a
  \<^verbatim>\<open>removed\<close> event of the secondary feed for an untagged document.
\<close>

theorem deletion_propagation_guarded_witness:
  "onChange_writes Map.empty
     \<lparr>operationType = Delete, documentKey = Some ''65f1a2b3c4d5e6f7a8b9c0d1'', fullDocument = None\<rparr>
   = Inr [DocDelete ''65f1a2b3c4d5e6f7a8b9c0d1''] \<and>
   onChange Map.empty
     \<lparr>operationType = Delete, documentKey = Some ''65f1a2b3c4d5e6f7a8b9c0d1'', fullDocument = None\<rparr>
     [''65f1a2b3c4d5e6f7a8b9c0d1'' \<mapsto> [(''firstName'', JString ''Ada'')]]
     ''65f1a2b3c4d5e6f7a8b9c0d1'' = None \<and>
   issued (onSnapshot_writes [''65f1a2b3c4d5e6f7a8b9c0d1'' \<mapsto> [(''firstName'', JString ''Ada'')]]
     \<lparr>change_type = Removed,
      change_doc = \<lparr>snap_id = ''65f1a2b3c4d5e6f7a8b9c0d1'',
                    snap_data = [(''firstName'', JString ''Ada'')]\<rparr>\<rparr>)
   = [FindByIdAndDelete ''65f1a2b3c4d5e6f7a8b9c0d1''] \<and>
   onSnapshot example_model
     \<lparr>change_type = Removed,
      change_doc = \<lparr>snap_id = ''65f1a2b3c4d5e6f7a8b9c0d1'',
                    snap_data = [(''firstName'', JString ''Ada'')]\<rparr>\<rparr>
     [''65f1a2b3c4d5e6f7a8b9c0d1'' \<mapsto> [(''firstName'', JString ''Ada'')]]
     ''65f1a2b3c4d5e6f7a8b9c0d1'' = None"
  using deletion_propagation_guarded
    [where change = "\<lparr>operationType = Delete, documentKey = Some ''65f1a2b3c4d5e6f7a8b9c0d1'',
                        fullDocument = None\<rparr>"
       and k = "''65f1a2b3c4d5e6f7a8b9c0d1''" and m = Map.empty
       and fs = "[''65f1a2b3c4d5e6f7a8b9c0d1'' \<mapsto> [(''firstName'', JString ''Ada'')]]"
       and c = "\<lparr>change_type = Removed,
      change_doc = \<lparr>snap_id = ''65f1a2b3c4d5e6f7a8b9c0d1'',
                    snap_data = [(''firstName'', JString ''Ada'')]\<rparr>\<rparr>"
       and mo = "[''65f1a2b3c4d5e6f7a8b9c0d1'' \<mapsto> [(''firstName'', JString ''Ada'')]]"
       and M = example_model]
  by (simp add: example_key_valid isSyncedFrom_def get_field_def docSyncedFrom_def)

text \<open>
  C2 as stated fails for a document that the replicator itself wrote to the secondary
  store: it carries the tag \<^verbatim>\<open>mongo\<close>, so its \<^verbatim>\<open>removed\<close> event returns at the tag
  test and the primary record stays.
\<close>

theorem removed_event_tagged_mongo_not_deleted:
  "onSnapshot example_model
     \<lparr>change_type = Removed,
      change_doc = \<lparr>snap_id = ''65f1a2b3c4d5e6f7a8b9c0d1'',
                    snap_data = [(''id'', JString ''65f1a2b3c4d5e6f7a8b9c0d1''),
                                 (''firstName'', JString ''Ada''),
                                 (''_syncedFrom'', JString ''mongo'')]\<rparr>\<rparr>
     [''65f1a2b3c4d5e6f7a8b9c0d1'' \<mapsto> [(''firstName'', JString ''Ada'')]]
     ''65f1a2b3c4d5e6f7a8b9c0d1''
   = Some [(''firstName'', JString ''Ada'')]"
  by (simp add: onSnapshot_def onSnapshot_writes_def isSyncedFrom_def get_field_def Let_def)

text \<open>
  Claim C3, as the code has it.  The tag names the store a document was synced from
  (\<^verbatim>\<open>mongo\<close> for the primary store, \<^verbatim>\<open>firestore\<close> for the secondary one).  An event
  is discarded, with no write on the other store, when its record carries the tag of the
  \<^emph>\<open>other\<close> store: an event of the primary feed whose \<^verbatim>\<open>fullDocument\<close> is tagged
  \<^verbatim>\<open>firestore\<close>, an \<^verbatim>\<open>update\<close> or \<^verbatim>\<open>replace\<close> event whose record, read again, is
  tagged \<^verbatim>\<open>firestore\<close>, and an event of the secondary feed whose document is tagged
  \<^verbatim>\<open>mongo\<close>.
\<close>

theorem echo_of_opposite_store_discarded:
  "(docSyncedFrom ''firestore'' (fullDocument change) \<longrightarrow>
      issued (onChange_writes m change) = [] \<and> onChange m change fs = fs) \<and>
   ((operationType change = Update \<or> operationType change = Replace) \<and>
    documentKey change = Some k \<and> m k = Some r \<and> isSyncedFrom ''firestore'' r \<longrightarrow>
      issued (onChange_writes m change) = [] \<and> onChange m change fs = fs) \<and>
   (isSyncedFrom ''mongo'' (snap_data (change_doc c)) \<longrightarrow>
      issued (onSnapshot_writes mo c) = [] \<and> onSnapshot M c mo = mo)"
  by (auto simp: onChange_writes_def onChange_def onSnapshot_writes_def onSnapshot_def issued_def
      refetch_writes_def findById_def docSyncedFrom_def Let_def split: option.splits)

text \<open>The theorem for C3 at one event of each of the three kinds.\<close>

theorem echo_of_opposite_store_discarded_witness:
  "issued (onChange_writes Map.empty
     \<lparr>operationType = Insert, documentKey = Some ''65f1a2b3c4d5e6f7a8b9c0d1'',
      fullDocument = Some \<lparr>doc_id = ''65f1a2b3c4d5e6f7a8b9c0d1'',
                            doc_fields = [(''firstName'', JString ''Ada''),
                                          (''_syncedFrom'', JString ''firestore'')]\<rparr>\<rparr>) = [] \<and>
   issued (onChange_writes
     [''65f1a2b3c4d5e6f7a8b9c0d1'' \<mapsto> [(''firstName'', JString ''Ada''),
                                          (''_syncedFrom'', JString ''firestore'')]]
     \<lparr>operationType = Update, documentKey = Some ''65f1a2b3c4d5e6f7a8b9c0d1'',
      fullDocument = None\<rparr>) = [] \<and>
   issued (onSnapshot_writes Map.empty
     \<lparr>change_type = Added,
      change_doc = \<lparr>snap_id = ''65f1a2b3c4d5e6f7a8b9c0d1'',
                    snap_data = [(''id'', JString ''65f1a2b3c4d5e6f7a8b9c0d1''),
                                 (''firstName'', JString ''Ada''),
                                 (''_syncedFrom'', JString ''mongo'')]\<rparr>\<rparr>) = []"
  using echo_of_opposite_store_discarded
    [where change = "\<lparr>operationType = Insert, documentKey = Some ''65f1a2b3c4d5e6f7a8b9c0d1'',
      fullDocument = Some \<lparr>doc_id = ''65f1a2b3c4d5e6f7a8b9c0d1'',
                            doc_fields = [(''firstName'', JString ''Ada''),
                                          (''_syncedFrom'', JString ''firestore'')]\<rparr>\<rparr>"
       and m = Map.empty
       and c = "\<lparr>change_type = Added,
      change_doc = \<lparr>snap_id = ''65f1a2b3c4d5e6f7a8b9c0d1'',
                    snap_data = [(''id'', JString ''65f1a2b3c4d5e6f7a8b9c0d1''),
                                 (''firstName'', JString ''Ada''),
                                 (''_syncedFrom'', JString ''mongo'')]\<rparr>\<rparr>"
       and mo = Map.empty]
    echo_of_opposite_store_discarded
    [where change = "\<lparr>operationType = Update, documentKey = Some ''65f1a2b3c4d5e6f7a8b9c0d1'',
      fullDocument = None\<rparr>"
       and k = "''65f1a2b3c4d5e6f7a8b9c0d1''"
       and r = "[(''firstName'', JString ''Ada''), (''_syncedFrom'', JString ''firestore'')]"
       and m = "[''65f1a2b3c4d5e6f7a8b9c0d1'' \<mapsto> [(''firstName'', JString ''Ada''),
                                          (''_syncedFrom'', JString ''firestore'')]]"]
  by (simp add: isSyncedFrom_def get_field_def docSyncedFrom_def)

text \<open>
  C3 as stated fails: an event read from the secondary store whose document is tagged
  \<^verbatim>\<open>firestore\<close>, the secondary store's own tag, is written to the primary store, and an
  event read from the primary store whose document is tagged \<^verbatim>\<open>mongo\<close> is written to
  the secondary store.
\<close>

theorem own_tag_event_is_written:
  "issued (onSnapshot_writes Map.empty
     \<lparr>change_type = Added,
      change_doc = \<lparr>snap_id = ''65f1a2b3c4d5e6f7a8b9c0d1'',
                    snap_data = [(''firstName'', JString ''Ada''),
                                 (''_syncedFrom'', JString ''firestore'')]\<rparr>\<rparr>)
   = [Create [(''_id'', JString ''65f1a2b3c4d5e6f7a8b9c0d1''), (''firstName'', JString ''Ada''),
              (''_syncedFrom'', JString ''firestore'')]] \<and>
   issued (onChange_writes Map.empty
     \<lparr>operationType = Insert, documentKey = Some ''65f1a2b3c4d5e6f7a8b9c0d1'',
      fullDocument = Some \<lparr>doc_id = ''65f1a2b3c4d5e6f7a8b9c0d1'',
                            doc_fields = [(''firstName'', JString ''Ada''),
                                          (''_syncedFrom'', JString ''mongo'')]\<rparr>\<rparr>)
   = [DocSet ''65f1a2b3c4d5e6f7a8b9c0d1''
        [(''id'', JString ''65f1a2b3c4d5e6f7a8b9c0d1''), (''firstName'', JString ''Ada''),
         (''_syncedFrom'', JString ''mongo'')]]"
  by (simp add: onSnapshot_writes_def onChange_writes_def issued_def isSyncedFrom_def
      docSyncedFrom_def get_field_def findById_def example_key_valid cleanFirestoreDoc_def
      cleanDocument_def syncedFrom_def assign_def Let_def)

text \<open>
  Claim C4, as the code has it.  Primary to secondary, for an \<^verbatim>\<open>update\<close> or
  \<^verbatim>\<open>replace\<close> event: when the event's own \<^verbatim>\<open>fullDocument\<close> is tagged
  \<^verbatim>\<open>firestore\<close>, or the record read again from the primary store by key is, nothing is
  written; otherwise the secondary document at the key is set to the normalized record
  read from the store (not the event's payload), tagged \<^verbatim>\<open>mongo\<close>.  Secondary to
  primary, a \<^verbatim>\<open>modified\<close> event is applied from its payload, with no second read of the
  secondary store: when the payload is not tagged \<^verbatim>\<open>mongo\<close>, the key matches the key
  grammar and the primary store holds a record at the key, the listener calls
  \<^verbatim>\<open>model.findByIdAndUpdate\<close> at the key with the payload's fields tagged
  \<^verbatim>\<open>firestore\<close>; otherwise it issues no write and the primary store is left as it was.
\<close>

theorem update_event_handling:
  "((operationType change = Update \<or> operationType change = Replace) \<and>
    documentKey change = Some k \<and> isValidObjectId k \<longrightarrow>
      onChange m change fs =
        (if docSyncedFrom ''firestore'' (fullDocument change) \<or>
            docSyncedFrom ''firestore'' (map_option (\<lambda>f. \<lparr>doc_id = k, doc_fields = f\<rparr>) (m k))
         then fs
         else fs(k \<mapsto> syncedFrom ''mongo''
                 (cleanDocument (map_option (\<lambda>f. \<lparr>doc_id = k, doc_fields = f\<rparr>) (m k)))))) \<and>
   (change_type c = Modified \<longrightarrow>
      onSnapshot_writes mo c =
        (if \<not> isSyncedFrom ''mongo'' (snap_data (change_doc c)) \<and>
            isValidObjectId (snap_id (change_doc c)) \<and> mo (snap_id (change_doc c)) \<noteq> None
         then Inr [FindByIdAndUpdate (snap_id (change_doc c))
                     (syncedFrom ''firestore'' (cleanFirestoreDoc (snap_data (change_doc c))))]
         else Inr []) \<and>
      (isSyncedFrom ''mongo'' (snap_data (change_doc c)) \<or>
       \<not> isValidObjectId (snap_id (change_doc c)) \<or> mo (snap_id (change_doc c)) = None \<longrightarrow>
         onSnapshot M c mo = mo))"
proof -
  have m2f: "onChange m change fs =
        (if docSyncedFrom ''firestore'' (fullDocument change) \<or>
            docSyncedFrom ''firestore'' (map_option (\<lambda>f. \<lparr>doc_id = k, doc_fields = f\<rparr>) (m k))
         then fs
         else fs(k \<mapsto> syncedFrom ''mongo''
                 (cleanDocument (map_option (\<lambda>f. \<lparr>doc_id = k, doc_fields = f\<rparr>) (m k)))))"
    if "operationType change = Update \<or> operationType change = Replace"
      "documentKey change = Some k" "isValidObjectId k"
    using that
    by (auto simp: onChange_def onChange_writes_def refetch_writes_def findById_def)
  have w: "onSnapshot_writes mo c =
        (if \<not> isSyncedFrom ''mongo'' (snap_data (change_doc c)) \<and>
            isValidObjectId (snap_id (change_doc c)) \<and> mo (snap_id (change_doc c)) \<noteq> None
         then Inr [FindByIdAndUpdate (snap_id (change_doc c))
                     (syncedFrom ''firestore'' (cleanFirestoreDoc (snap_data (change_doc c))))]
         else Inr [])"
    if "change_type c = Modified"
    using that by (simp add: onSnapshot_writes_def findById_def Let_def)
  have f2m: "onSnapshot M c mo = mo"
    if "change_type c = Modified"
      "isSyncedFrom ''mongo'' (snap_data (change_doc c)) \<or>
       \<not> isValidObjectId (snap_id (change_doc c)) \<or> mo (snap_id (change_doc c)) = None"
    using that w by (auto simp: onSnapshot_def)
  from m2f w f2m show ?thesis by blast
qed

text \<open>
  The theorem for C4 at an \<^verbatim>\<open>update\<close> event of the primary feed and a
  \<^verbatim>\<open>modified\<close> event of the secondary feed for a student present in the other store,
  and at the same \<^verbatim>\<open>modified\<close> event when the primary store is empty.
\<close>

theorem update_event_handling_witness:
  "onChange [''65f1a2b3c4d5e6f7a8b9c0d1'' \<mapsto> [(''firstName'', JString ''Grace'')]]
     \<lparr>operationType = Update, documentKey = Some ''65f1a2b3c4d5e6f7a8b9c0d1'', fullDocument = None\<rparr>
     Map.empty ''65f1a2b3c4d5e6f7a8b9c0d1''
   = Some [(''id'', JString ''65f1a2b3c4d5e6f7a8b9c0d1''), (''firstName'', JString ''Grace''),
           (''_syncedFrom'', JString ''mongo'')] \<and>
   onSnapshot_writes
     [''65f1a2b3c4d5e6f7a8b9c0d1'' \<mapsto> [(''firstName'', JString ''Ada'')]]
     \<lparr>change_type = Modified,
      change_doc = \<lparr>snap_id = ''65f1a2b3c4d5e6f7a8b9c0d1'', snap_data = [(''firstName'', JString ''Grace'')]\<rparr>\<rparr>
   = Inr [FindByIdAndUpdate ''65f1a2b3c4d5e6f7a8b9c0d1''
            [(''firstName'', JString ''Grace''), (''_syncedFrom'', JString ''firestore'')]] \<and>
   onSnapshot example_model
     \<lparr>change_type = Modified,
      change_doc = \<lparr>snap_id = ''65f1a2b3c4d5e6f7a8b9c0d1'', snap_data = [(''firstName'', JString ''Grace'')]\<rparr>\<rparr>
     Map.empty
   = Map.empty"
  using update_event_handling
    [where change = "\<lparr>operationType = Update, documentKey = Some ''65f1a2b3c4d5e6f7a8b9c0d1'', fullDocument = None\<rparr>"
       and k = "''65f1a2b3c4d5e6f7a8b9c0d1''"
       and m = "[''65f1a2b3c4d5e6f7a8b9c0d1'' \<mapsto> [(''firstName'', JString ''Grace'')]]"
       and fs = Map.empty
       and c = "\<lparr>change_type = Modified,
      change_doc = \<lparr>snap_id = ''65f1a2b3c4d5e6f7a8b9c0d1'', snap_data = [(''firstName'', JString ''Grace'')]\<rparr>\<rparr>"
       and mo = "[''65f1a2b3c4d5e6f7a8b9c0d1'' \<mapsto> [(''firstName'', JString ''Ada'')]]"]
    update_event_handling
    [where c = "\<lparr>change_type = Modified,
      change_doc = \<lparr>snap_id = ''65f1a2b3c4d5e6f7a8b9c0d1'', snap_data = [(''firstName'', JString ''Grace'')]\<rparr>\<rparr>"
       and mo = Map.empty and M = example_model]
  by (simp add: example_key_valid isSyncedFrom_def get_field_def docSyncedFrom_def
      cleanDocument_def cleanFirestoreDoc_def syncedFrom_def assign_def)

text \<open>
  C4 as stated fails.  A \<^verbatim>\<open>modified\<close> event for a document that is not tagged, at a
  key where the primary store has no record, writes nothing: the destination gets no
  record.  A \<^verbatim>\<open>replace\<close> event whose payload is tagged \<^verbatim>\<open>firestore\<close> is discarded on
  the payload alone, though the record now in the primary store carries no tag.
\<close>

theorem modified_event_without_record_not_written:
  "issued (onSnapshot_writes Map.empty
     \<lparr>change_type = Modified,
      change_doc = \<lparr>snap_id = ''65f1a2b3c4d5e6f7a8b9c0d1'',
                    snap_data = [(''firstName'', JString ''Ada'')]\<rparr>\<rparr>) = [] \<and>
   onSnapshot example_model
     \<lparr>change_type = Modified,
      change_doc = \<lparr>snap_id = ''65f1a2b3c4d5e6f7a8b9c0d1'',
                    snap_data = [(''firstName'', JString ''Ada'')]\<rparr>\<rparr>
     Map.empty ''65f1a2b3c4d5e6f7a8b9c0d1'' = None \<and>
   issued (onChange_writes [''65f1a2b3c4d5e6f7a8b9c0d1'' \<mapsto> [(''firstName'', JString ''Grace'')]]
     \<lparr>operationType = Replace, documentKey = Some ''65f1a2b3c4d5e6f7a8b9c0d1'',
      fullDocument = Some \<lparr>doc_id = ''65f1a2b3c4d5e6f7a8b9c0d1'',
                            doc_fields = [(''firstName'', JString ''Ada''),
                                          (''_syncedFrom'', JString ''firestore'')]\<rparr>\<rparr>) = []"
  by (simp add: onSnapshot_def onSnapshot_writes_def onChange_writes_def issued_def
      isSyncedFrom_def docSyncedFrom_def get_field_def findById_def example_key_valid Let_def)

section \<open>Keys outside the primary key grammar\<close>

text \<open>
  Claim C5, at the key \<^verbatim>\<open>teacher-fall-2024\<close>.  The branch that would create the record
  under a new key (\<^verbatim>\<open>// Generate new ObjectId for invalid format\<close>) stands behind
  \<^verbatim>\<open>await model.findById(id)\<close>, which is called with the key as it is.  For this key
  the lookup rejects, the \<^verbatim>\<open>catch\<close> logs the error, and neither the listener nor the
  initial snapshot creates a record.
\<close>

theorem nonmatching_key_added_event_rejected:
  "onSnapshot_writes Map.empty
     \<lparr>change_type = Added,
      change_doc = \<lparr>snap_id = ''teacher-fall-2024'',
                    snap_data = [(''firstName'', JString ''Ada'')]\<rparr>\<rparr> = Inl CastError \<and>
   onSnapshot M
     \<lparr>change_type = Added,
      change_doc = \<lparr>snap_id = ''teacher-fall-2024'',
                    snap_data = [(''firstName'', JString ''Ada'')]\<rparr>\<rparr> Map.empty = Map.empty \<and>
   initialSnapshot M
     [\<lparr>snap_id = ''teacher-fall-2024'', snap_data = [(''firstName'', JString ''Ada'')]\<rparr>]
     Map.empty = Map.empty"
  by (simp add: onSnapshot_def onSnapshot_writes_def initialSnapshot_def initialSnapshot_doc_def
      initialSnapshot_writes_def isSyncedFrom_def get_field_def findById_def example_key_invalid
      Let_def)

text \<open>
  Claim C6.  For a \<^verbatim>\<open>modified\<close> or \<^verbatim>\<open>removed\<close> event whose document key does not
  match the 24 hex digit grammar, the snapshot listener issues no write and the primary
  store is left as it was.
\<close>

theorem nonmatching_key_modified_removed_noop:
  assumes "\<not> isValidObjectId (snap_id (change_doc change))"
    and "change_type change = Modified \<or> change_type change = Removed"
  shows "onSnapshot_writes m change = Inr [] \<and> onSnapshot M change m = m"
  using assms by (auto simp: onSnapshot_writes_def onSnapshot_def Let_def)

text \<open>The theorem for C6 at a \<^verbatim>\<open>removed\<close> event for the key \<^verbatim>\<open>teacher-fall-2024\<close>.\<close>

theorem nonmatching_key_modified_removed_noop_witness:
  "\<not> isValidObjectId ''teacher-fall-2024'' \<and>
   onSnapshot_writes
     [''65f1a2b3c4d5e6f7a8b9c0d1'' \<mapsto> [(''firstName'', JString ''Ada'')]]
     \<lparr>change_type = Removed,
      change_doc = \<lparr>snap_id = ''teacher-fall-2024'', snap_data = [(''firstName'', JString ''Ada'')]\<rparr>\<rparr>
     = Inr [] \<and>
   onSnapshot example_model
     \<lparr>change_type = Removed,
      change_doc = \<lparr>snap_id = ''teacher-fall-2024'', snap_data = [(''firstName'', JString ''Ada'')]\<rparr>\<rparr>
     [''65f1a2b3c4d5e6f7a8b9c0d1'' \<mapsto> [(''firstName'', JString ''Ada'')]]
     = [''65f1a2b3c4d5e6f7a8b9c0d1'' \<mapsto> [(''firstName'', JString ''Ada'')]]"
  using nonmatching_key_modified_removed_noop
    [where change = "\<lparr>change_type = Removed,
      change_doc = \<lparr>snap_id = ''teacher-fall-2024'', snap_data = [(''firstName'', JString ''Ada'')]\<rparr>\<rparr>"
       and m = "[''65f1a2b3c4d5e6f7a8b9c0d1'' \<mapsto> [(''firstName'', JString ''Ada'')]]"
       and M = example_model]
    example_key_invalid
  by simp

section \<open>Added events\<close>

text \<open>
  Claim C10.  For an \<^verbatim>\<open>added\<close> event, when the primary store already holds a record
  at the document's key the listener issues no write and the store is unchanged; it
  issues a write only when there is no record at that key.
\<close>

theorem added_is_create_if_absent:
  assumes "change_type change = Added"
  shows "(m (snap_id (change_doc change)) \<noteq> None \<longrightarrow>
            issued (onSnapshot_writes m change) = [] \<and> onSnapshot M change m = m) \<and>
         (issued (onSnapshot_writes m change) \<noteq> [] \<longrightarrow> m (snap_id (change_doc change)) = None)"
  using assms
  by (auto simp: onSnapshot_writes_def onSnapshot_def Let_def issued_def findById_def)

text \<open>
  The theorem for C10 at an \<^verbatim>\<open>added\<close> event whose key already has a record with
  another first name.
\<close>

theorem added_is_create_if_absent_witness:
  "issued (onSnapshot_writes
     [''65f1a2b3c4d5e6f7a8b9c0d1'' \<mapsto> [(''firstName'', JString ''Ada'')]]
     \<lparr>change_type = Added,
      change_doc = \<lparr>snap_id = ''65f1a2b3c4d5e6f7a8b9c0d1'',
                    snap_data = [(''firstName'', JString ''Grace'')]\<rparr>\<rparr>) = [] \<and>
   onSnapshot example_model
     \<lparr>change_type = Added,
      change_doc = \<lparr>snap_id = ''65f1a2b3c4d5e6f7a8b9c0d1'',
                    snap_data = [(''firstName'', JString ''Grace'')]\<rparr>\<rparr>
     [''65f1a2b3c4d5e6f7a8b9c0d1'' \<mapsto> [(''firstName'', JString ''Ada'')]]
     = [''65f1a2b3c4d5e6f7a8b9c0d1'' \<mapsto> [(''firstName'', JString ''Ada'')]]"
  using added_is_create_if_absent
    [where change = "\<lparr>change_type = Added,
      change_doc = \<lparr>snap_id = ''65f1a2b3c4d5e6f7a8b9c0d1'',
                    snap_data = [(''firstName'', JString ''Grace'')]\<rparr>\<rparr>"
       and m = "[''65f1a2b3c4d5e6f7a8b9c0d1'' \<mapsto> [(''firstName'', JString ''Ada'')]]"
       and M = example_model]
  by simp

section \<open>Order of handling within a feed\<close>











section \<open>Startup order\<close>




section \<open>Normalization to the secondary shape\<close>

lemma cleanObject_no_ObjectId: "\<not> has_ObjectId (cleanObject v)"
  by (induction v rule: cleanObject.induct) (auto simp: list_ex_iff)

lemma cleanObject_id: "\<not> has_ObjectId v \<Longrightarrow> cleanObject v = v"
  by (induction v rule: cleanObject.induct) (auto simp: list_ex_iff intro!: map_idI)

lemma map_of_clean_entries:
  "map_of (map (\<lambda>(k, v). (k, cleanObject v)) xs) k = map_option cleanObject (map_of xs k)"
  by (simp add: map_of_map)

text \<open>
  Claim C9, as the code has it.  For a primary-store document \<open>d\<close>,
  \<^verbatim>\<open>cleanDocument\<close> returns an object without the keys \<^verbatim>\<open>_id\<close> and
  \<^verbatim>\<open>__v\<close>.  Its \<^verbatim>\<open>id\<close> is the string form of the document's \<^verbatim>\<open>_id\<close>
  provided the document has no field of its own called \<^verbatim>\<open>id\<close>; every other field of
  the document is kept under its key with the value cleaned.  Cleaning leaves no ObjectId
  anywhere in a value: an ObjectId becomes its string form, a date stays as it is, arrays
  and objects are cleaned entry by entry, and a value that holds no ObjectId is unchanged.
\<close>

theorem cleanDocument_secondary_shape:
  "''_id'' \<notin> fst ` set (cleanDocument (Some d)) \<and>
   ''__v'' \<notin> fst ` set (cleanDocument (Some d)) \<and>
   (''id'' \<notin> fst ` set (doc_fields d) \<longrightarrow>
      map_of (cleanDocument (Some d)) ''id'' = Some (JString (doc_id d))) \<and>
   (distinct (map fst (doc_fields d)) \<and> (k, v) \<in> set (doc_fields d) \<and>
    k \<noteq> ''_id'' \<and> k \<noteq> ''__v'' \<longrightarrow>
      map_of (cleanDocument (Some d)) k = Some (cleanObject v)) \<and>
   (\<forall>w \<in> snd ` set (cleanDocument (Some d)). \<not> has_ObjectId w) \<and>
   cleanObject (JObjectId h) = JString h \<and>
   cleanObject (JDate t) = JDate t \<and>
   cleanObject (JArray xs) = JArray (map cleanObject xs) \<and>
   cleanObject (JObject kvs) = JObject (map (\<lambda>(k, v). (k, cleanObject v)) kvs) \<and>
   (\<not> has_ObjectId u \<longrightarrow> cleanObject u = u)"
proof -
  let ?rest = "AList.delete ''__v'' (AList.delete ''_id'' (doc_fields d))"
  let ?cleaned = "assign [(''id'', JString (doc_id d))] ?rest"
  have out: "cleanDocument (Some d) = map (\<lambda>(k, v). (k, cleanObject v)) ?cleaned"
    by (simp add: cleanDocument_def)
  have keys: "fst ` set (cleanDocument (Some d)) = fst ` set ?cleaned"
    unfolding out by (force simp: image_iff)
  have rest_keys: "fst ` set ?rest = fst ` set (doc_fields d) - {''_id'', ''__v''}"
    by (auto simp: AList.delete_eq)
  have a: "''_id'' \<notin> fst ` set (cleanDocument (Some d))"
    unfolding keys assign_keys rest_keys by simp
  have b: "''__v'' \<notin> fst ` set (cleanDocument (Some d))"
    unfolding keys assign_keys rest_keys by simp
  have c: "map_of (cleanDocument (Some d)) ''id'' = Some (JString (doc_id d))"
    if "''id'' \<notin> fst ` set (doc_fields d)"
  proof -
    from that have "''id'' \<notin> fst ` set ?rest" unfolding rest_keys by simp
    then have "map_of ?cleaned ''id'' = Some (JString (doc_id d))"
      by (simp add: map_of_assign_other)
    then show ?thesis unfolding out by (simp add: map_of_clean_entries)
  qed
  have e: "map_of (cleanDocument (Some d)) k = Some (cleanObject v)"
    if "distinct (map fst (doc_fields d))" "(k, v) \<in> set (doc_fields d)" "k \<noteq> ''_id''" "k \<noteq> ''__v''"
  proof -
    from that have "distinct (map fst ?rest)" by (simp add: distinct_delete)
    moreover from that have "(k, v) \<in> set ?rest" by (auto simp: AList.delete_eq)
    ultimately have "map_of ?cleaned k = Some v" by (rule map_of_assign_distinct)
    then show ?thesis unfolding out by (simp add: map_of_clean_entries)
  qed
  have f: "\<forall>w \<in> snd ` set (cleanDocument (Some d)). \<not> has_ObjectId w"
    unfolding out by (auto simp: cleanObject_no_ObjectId)
  show ?thesis using a b c e f cleanObject_id [of u] by simp
qed

text \<open>
  The theorem for C9 at an attempt document with a reference, a date and a version
  counter.
\<close>

theorem cleanDocument_secondary_shape_witness:
  "''_id'' \<notin> fst ` set (cleanDocument (Some \<lparr>doc_id = ''65f1a2b3c4d5e6f7a8b9c0d1'',
       doc_fields = [(''student'', JObjectId ''65f1a2b3c4d5e6f7a8b9c0d2''),
                     (''takenAt'', JDate 1700000000000), (''__v'', JNumber 0)]\<rparr>)) \<and>
   map_of (cleanDocument (Some \<lparr>doc_id = ''65f1a2b3c4d5e6f7a8b9c0d1'',
       doc_fields = [(''student'', JObjectId ''65f1a2b3c4d5e6f7a8b9c0d2''),
                     (''takenAt'', JDate 1700000000000), (''__v'', JNumber 0)]\<rparr>)) ''id''
     = Some (JString ''65f1a2b3c4d5e6f7a8b9c0d1'') \<and>
   map_of (cleanDocument (Some \<lparr>doc_id = ''65f1a2b3c4d5e6f7a8b9c0d1'',
       doc_fields = [(''student'', JObjectId ''65f1a2b3c4d5e6f7a8b9c0d2''),
                     (''takenAt'', JDate 1700000000000), (''__v'', JNumber 0)]\<rparr>)) ''student''
     = Some (JString ''65f1a2b3c4d5e6f7a8b9c0d2'') \<and>
   cleanObject (JArray [JNumber 1, JNull]) = JArray [JNumber 1, JNull]"
  using cleanDocument_secondary_shape
    [where d = "\<lparr>doc_id = ''65f1a2b3c4d5e6f7a8b9c0d1'',
       doc_fields = [(''student'', JObjectId ''65f1a2b3c4d5e6f7a8b9c0d2''),
                     (''takenAt'', JDate 1700000000000), (''__v'', JNumber 0)]\<rparr>"
       and k = "''student''" and v = "JObjectId ''65f1a2b3c4d5e6f7a8b9c0d2''"
       and u = "JArray [JNumber 1, JNull]"]
  by simp

text \<open>
  C9 as stated fails on a document that has a field called \<^verbatim>\<open>id\<close>: the spread
  \<^verbatim>\<open>{ id: _id.toString(), ...rest }\<close> lets that field replace the string form of
  \<^verbatim>\<open>_id\<close>.
\<close>

theorem cleanDocument_own_id_field_wins:
  "map_of (cleanDocument (Some \<lparr>doc_id = ''65f1a2b3c4d5e6f7a8b9c0d1'',
        doc_fields = [(''id'', JString ''S-1''), (''__v'', JNumber 0)]\<rparr>)) ''id''
     = Some (JString ''S-1'')"
  by (simp add: cleanDocument_def assign_def)

section \<open>Further properties of the primary-to-secondary replicator\<close>

lemma isSyncedFrom_syncedFrom: "isSyncedFrom tag (syncedFrom tag ob)"
  by (simp add: isSyncedFrom_def syncedFrom_def get_field_def update_conv')

text \<open>
  Property X1.  An \<^verbatim>\<open>insert\<close> event of the primary feed whose \<^verbatim>\<open>fullDocument\<close> is not
  tagged \<^verbatim>\<open>firestore\<close> sets the secondary document at the event's key to the normalized
  full document, tagged \<^verbatim>\<open>mongo\<close>.
\<close>

theorem insert_event_replicated:
  assumes "operationType change = Insert" and "documentKey change = Some k"
    and "\<not> docSyncedFrom ''firestore'' (fullDocument change)"
  shows "onChange m change fs
         = fs(k \<mapsto> syncedFrom ''mongo'' (cleanDocument (fullDocument change)))"
  using assms by (simp add: onChange_def onChange_writes_def)

text \<open>Property X1 at the insert of a student.\<close>

theorem insert_event_replicated_witness:
  "onChange Map.empty
     \<lparr>operationType = Insert, documentKey = Some ''65f1a2b3c4d5e6f7a8b9c0d1'',
      fullDocument = Some \<lparr>doc_id = ''65f1a2b3c4d5e6f7a8b9c0d1'',
                            doc_fields = [(''firstName'', JString ''Ada''), (''__v'', JNumber 0)]\<rparr>\<rparr>
     Map.empty ''65f1a2b3c4d5e6f7a8b9c0d1''
   = Some [(''id'', JString ''65f1a2b3c4d5e6f7a8b9c0d1''), (''firstName'', JString ''Ada''),
           (''_syncedFrom'', JString ''mongo'')]"
  using insert_event_replicated
    [where change = "\<lparr>operationType = Insert, documentKey = Some ''65f1a2b3c4d5e6f7a8b9c0d1'',
      fullDocument = Some \<lparr>doc_id = ''65f1a2b3c4d5e6f7a8b9c0d1'',
                            doc_fields = [(''firstName'', JString ''Ada''), (''__v'', JNumber 0)]\<rparr>\<rparr>"
       and k = "''65f1a2b3c4d5e6f7a8b9c0d1''" and m = Map.empty and fs = Map.empty]
  by (simp add: docSyncedFrom_def isSyncedFrom_def get_field_def cleanDocument_def
      syncedFrom_def assign_def)

text \<open>
  Property X2.  Every document that the primary-to-secondary replicator sets, in its
  initial sync or in its listener, is tagged \<^verbatim>\<open>mongo\<close>; the event that the secondary
  feed raises for it, of whatever kind, and a later initial snapshot that meets it, write
  nothing to the primary store.
\<close>

theorem replicated_document_is_no_echo:
  assumes "DocSet k d \<in> set (issued (onChange_writes m change)) \<or>
           DocSet k d \<in> set (initialSync_writes fs ld)"
  shows "issued (onSnapshot_writes mo \<lparr>change_type = t, change_doc = \<lparr>snap_id = k, snap_data = d\<rparr>\<rparr>) = [] \<and>
         onSnapshot M \<lparr>change_type = t, change_doc = \<lparr>snap_id = k, snap_data = d\<rparr>\<rparr> mo = mo \<and>
         initialSnapshot M [\<lparr>snap_id = k, snap_data = d\<rparr>] mo = mo"
proof -
  from assms have "\<exists>ob. d = syncedFrom ''mongo'' ob"
    by (auto simp: issued_def onChange_writes_def refetch_writes_def initialSync_writes_def
        split: sum.splits option.splits if_splits operationType.splits)
  then have "isSyncedFrom ''mongo'' d"
    by (auto simp: isSyncedFrom_syncedFrom)
  then show ?thesis
    by (simp add: issued_def onSnapshot_writes_def onSnapshot_def initialSnapshot_def
        initialSnapshot_doc_def initialSnapshot_writes_def Let_def)
qed

text \<open>Property X2 at the document that the initial sync writes for a student.\<close>

theorem replicated_document_is_no_echo_witness:
  "issued (onSnapshot_writes Map.empty
     \<lparr>change_type = Added,
      change_doc = \<lparr>snap_id = ''65f1a2b3c4d5e6f7a8b9c0d1'',
        snap_data = syncedFrom ''mongo'' (cleanDocument (Some
          \<lparr>doc_id = ''65f1a2b3c4d5e6f7a8b9c0d1'',
           doc_fields = [(''firstName'', JString ''Ada'')]\<rparr>))\<rparr>\<rparr>) = []"
  using replicated_document_is_no_echo
    [where k = "''65f1a2b3c4d5e6f7a8b9c0d1''"
       and d = "syncedFrom ''mongo'' (cleanDocument (Some
          \<lparr>doc_id = ''65f1a2b3c4d5e6f7a8b9c0d1'',
           doc_fields = [(''firstName'', JString ''Ada'')]\<rparr>))"
       and fs = Map.empty
       and ld = "\<lparr>doc_id = ''65f1a2b3c4d5e6f7a8b9c0d1'',
           doc_fields = [(''firstName'', JString ''Ada'')]\<rparr>"
       and mo = Map.empty and t = Added]
  by (simp add: initialSync_writes_def)

end
